theory Spec2Isabelle
  imports Main
begin

section \<open>JavaScript values\<close>

text \<open>
  The session provider (context/AuthContext.tsx, the second listing of part_001, lines
  199-360) and the gateway hook (hooks/useApi.ts, part_000) exchange strings, parsed JSON
  bodies and thrown errors. A parsed body is a \<open>json\<close> value; JavaScript's
  \<open>undefined\<close> is \<open>None\<close> of \<open>json option\<close>. Numbers are
  integers here: no claim depends on a fractional number.

  What is taken from the platform rather than from the repository: React 18 commits the
  state updates of one handler or one promise continuation together and runs an effect
  after a commit when one of its dependencies changed (the production behaviour; the
  development-only second run of effects under StrictMode is left out); the
  \<open>Headers\<close> object compares names without regard to case and is given well-formed
  names and values, which it stores as they are; case mapping is the ASCII one.
\<close>

datatype json =
    JNull
  | JBool bool
  | JNum int
  | JStr string
  | JArr "json list"
  | JObj "(string \<times> json) list"

text \<open>What a \<open>throw\<close> carries: the error class and its message.\<close>

datatype js_error =
    Error string
  | TypeError string
  | SyntaxError string
  | DOMException string

text \<open>Truthiness, as tested by \<open>if (x)\<close> and \<open>x || y\<close>.\<close>

fun truthy :: "json \<Rightarrow> bool" where
  "truthy JNull = False"
| "truthy (JBool b) = b"
| "truthy (JNum n) = (n \<noteq> 0)"
| "truthy (JStr s) = (s \<noteq> [])"
| "truthy (JArr xs) = True"
| "truthy (JObj kvs) = True"

definition js_or :: "json option \<Rightarrow> json option \<Rightarrow> json option" where
  "js_or a b = (case a of None \<Rightarrow> b | Some j \<Rightarrow> if truthy j then a else b)"

text \<open>
  Property access \<open>v.k\<close> on a parsed JSON value, for a key that is not a built-in
  property: a TypeError on \<open>null\<close>, the (last) member of an object, and
  \<open>undefined\<close> on everything else.
\<close>

fun get_prop :: "json \<Rightarrow> string \<Rightarrow> js_error + json option" where
  "get_prop JNull k = Inl (TypeError ''Cannot read properties of null'')"
| "get_prop (JObj kvs) k = Inr (map_of (rev kvs) k)"
| "get_prop v k = Inr None"

function string_of_nat :: "nat \<Rightarrow> string" where
  "string_of_nat n =
     (if n < 10 then [''0123456789'' ! n]
      else string_of_nat (n div 10) @ [''0123456789'' ! (n mod 10)])"
  by pat_completeness auto
termination
  by (relation "measure (\<lambda>n. n)") auto

declare string_of_nat.simps [simp del]

fun intercalate :: "string \<Rightarrow> string list \<Rightarrow> string" where
  "intercalate sep [] = []"
| "intercalate sep [x] = x"
| "intercalate sep (x # y # ys) = x @ sep @ intercalate sep (y # ys)"

text \<open>\<open>String(v)\<close>, the conversion the \<open>Error\<close> constructor applies to its argument.\<close>

fun js_to_string :: "json \<Rightarrow> string" where
  "js_to_string JNull = ''null''"
| "js_to_string (JBool b) = (if b then ''true'' else ''false'')"
| "js_to_string (JNum n) =
     (if n < 0 then ''-'' @ string_of_nat (nat (- n)) else string_of_nat (nat n))"
| "js_to_string (JStr s) = s"
| "js_to_string (JArr xs) =
     intercalate '','' (map (\<lambda>x. if x = JNull then [] else js_to_string x) xs)"
| "js_to_string (JObj kvs) = ''[object Object]''"





section \<open>The fetch interface\<close>

text \<open>
  A response as the code reads it: \<open>status\<close>, \<open>statusText\<close>, and the body once
  parsed (\<open>None\<close> when \<open>JSON.parse\<close> / \<open>response.json()\<close> throws a
  SyntaxError). \<open>response.ok\<close> is the 200-299 range. A fetch either rejects
  (the request never completed) or resolves with a response.
\<close>

record Response =
  status :: nat
  statusText :: string
  json_body :: "json option"

definition ok :: "Response \<Rightarrow> bool" where
  "ok r = (200 \<le> status r \<and> status r \<le> 299)"

datatype fetch_outcome = Rejected js_error | Responded Response







section \<open>The session provider (AuthContext.tsx)\<close>

text \<open>
  The \<open>User\<close> object built by \<open>fetchUser\<close>. TypeScript's field types are
  erased at run time, so each field holds whatever the profile body held.
\<close>

record User =
  user_id :: "json option"
  user_name :: "json option"

text \<open>
  The provider's four \<open>useState\<close> cells, the \<open>wp_jwt_token\<close> entry of
  localStorage, and the identity requests in flight (the token each was issued for, in
  the order they were issued).
\<close>

record auth_state =
  token :: "string option"
  user :: "User option"
  loadingUser :: bool
  loginError :: "string option"
  storage :: "string option"
  pending :: "string list"

text \<open>\<open>if (token)\<close>: neither \<open>null\<close> nor the empty string.\<close>

definition truthy_token :: "string option \<Rightarrow> bool" where
  "truthy_token tok = (case tok of None \<Rightarrow> False | Some t \<Rightarrow> t \<noteq> [])"

text \<open>
  \<open>fetchUser\<close> (lines 248-276): what it sends for a token, and what it returns for
  each outcome of the request. Every failure (rejection, non-ok status, unparsable body,
  a \<open>null\<close> body) ends in \<open>null\<close>.
\<close>

definition fetchUser_headers :: "string \<Rightarrow> (string \<times> string) list" where
  "fetchUser_headers currentToken =
     [(''Authorization'', ''Bearer '' @ currentToken), (''Content-Type'', ''application/json'')]"

definition fetchUser :: "fetch_outcome \<Rightarrow> User option" where
  "fetchUser out =
     (case out of
        Rejected err \<Rightarrow> None
      | Responded response \<Rightarrow>
          if \<not> ok response then None
          else (case json_body response of
                  None \<Rightarrow> None
                | Some userData \<Rightarrow>
                    (case (get_prop userData ''id'', get_prop userData ''name'',
                           get_prop userData ''slug'') of
                       (Inr i, Inr n, Inr sl) \<Rightarrow> Some \<lparr>user_id = i, user_name = js_or n sl\<rparr>
                     | _ \<Rightarrow> None)))"

text \<open>
  The effect of lines 278-298 up to its first \<open>await\<close>: with a truthy token it calls
  \<open>fetchUser\<close>, which sets \<open>loadingUser\<close> and issues the request; otherwise it
  clears the user and ends the loading phase.
\<close>

definition initializeAuth :: "auth_state \<Rightarrow> auth_state" where
  "initializeAuth s =
     (case token s of
        None \<Rightarrow> s\<lparr>user := None, loadingUser := False\<rparr>
      | Some t \<Rightarrow>
          if t \<noteq> [] then s\<lparr>loadingUser := True, pending := pending s @ [t]\<rparr>
          else s\<lparr>user := None, loadingUser := False\<rparr>)"

text \<open>
  A render commits the batched updates of a handler; the effect's dependency list is
  \<open>[token, fetchUser]\<close> and \<open>fetchUser\<close> never changes, so the effect runs again
  exactly when the token differs from the one of the previous render.
\<close>

definition commit :: "auth_state \<Rightarrow> auth_state \<Rightarrow> auth_state" where
  "commit old new = (if token new = token old then new else initializeAuth new)"

text \<open>
  Mounting: \<open>useState(() => localStorage.getItem('wp_jwt_token'))\<close>, the other cells
  at their initial values, then the first run of the effect.
\<close>

definition mount :: "string option \<Rightarrow> auth_state" where
  "mount stored =
     initializeAuth \<lparr>token = stored, user = None, loadingUser = True, loginError = None,
                     storage = stored, pending = []\<rparr>"

text \<open>
  \<open>login\<close> (lines 301-311). The flag says whether \<open>localStorage.setItem\<close>
  returned; when it throws, the two setters after it in the \<open>try\<close> block are skipped
  and the \<open>catch\<close> block runs.
\<close>

definition login_updates :: "bool \<Rightarrow> string \<Rightarrow> auth_state \<Rightarrow> auth_state" where
  "login_updates write_ok newToken s =
     (if write_ok then s\<lparr>storage := Some newToken, token := Some newToken, loginError := None\<rparr>
      else s\<lparr>loginError := Some ''Unable to store authentication data.''\<rparr>)"

definition login :: "bool \<Rightarrow> string \<Rightarrow> auth_state \<Rightarrow> auth_state" where
  "login write_ok newToken s = commit s (login_updates write_ok newToken s)"

text \<open>
  \<open>logout\<close> (lines 314-323). The flag says whether \<open>localStorage.removeItem\<close>
  returned; its failure is caught and the two setters run in both cases.
\<close>

definition logout_updates :: "bool \<Rightarrow> auth_state \<Rightarrow> auth_state" where
  "logout_updates remove_ok s =
     s\<lparr>storage := (if remove_ok then None else storage s), token := None, user := None\<rparr>"

definition logout :: "bool \<Rightarrow> auth_state \<Rightarrow> auth_state" where
  "logout remove_ok s = commit s (logout_updates remove_ok s)"

text \<open>
  The rest of \<open>initializeAuth\<close> (lines 283-294), run when the \<open>i\<close>-th request in
  flight completes with outcome \<open>out\<close>. It never looks at the token now held.
\<close>

definition resolved :: "nat \<Rightarrow> fetch_outcome \<Rightarrow> bool \<Rightarrow> auth_state \<Rightarrow> auth_state" where
  "resolved i out remove_ok s =
     (if i < length (pending s) then
        (let s1 = s\<lparr>pending := take i (pending s) @ drop (Suc i) (pending s)\<rparr>
         in commit s
              (case fetchUser out of
                 Some fetchedUser \<Rightarrow>
                   s1\<lparr>user := Some fetchedUser, loginError := None, loadingUser := False\<rparr>
               | None \<Rightarrow>
                   (logout_updates remove_ok s1)
                     \<lparr>loginError := Some ''Session expired. Please log in again.'',
                      loadingUser := False\<rparr>))
      else s)"

text \<open>The fields of \<open>contextValue\<close> (lines 325-332) that consumers can observe.\<close>

definition contextValue :: "auth_state \<Rightarrow> string option \<times> User option \<times> bool \<times> string option" where
  "contextValue s = (token s, user s, loadingUser s, loginError s)"

text \<open>
  The provider has no status field. The five status names of the specification are read
  off the provider's state the way its consumers read it (PrivateRoute and LoginPage test
  \<open>loadingUser\<close> first, then \<open>user\<close>).
\<close>

datatype session_status = Initializing | Unauthenticated | Resolving | Authenticated | Invalid

definition status_of :: "auth_state \<Rightarrow> session_status" where
  "status_of s =
     (if loadingUser s then (if truthy_token (token s) then Resolving else Initializing)
      else if user s = None then Unauthenticated else Authenticated)"

subsection \<open>useAuth\<close>

text \<open>
  \<open>useContext\<close> walks the ancestors of the calling component, innermost first, and
  returns the value of the nearest provider, or the default \<open>null\<close> of
  \<open>createContext\<close> (line 235). \<open>AuthProvider\<close> always provides an object.
\<close>

datatype 'c element = AuthContext_Provider "'c option" | Element

definition AuthProvider :: "'c \<Rightarrow> 'c element" where
  "AuthProvider ctx = AuthContext_Provider (Some ctx)"

fun useContext :: "'c element list \<Rightarrow> 'c option" where
  "useContext [] = None"
| "useContext (AuthContext_Provider v # ancestors) = v"
| "useContext (Element # ancestors) = useContext ancestors"

definition useAuth :: "'c element list \<Rightarrow> js_error + 'c" where
  "useAuth ancestors =
     (case useContext ancestors of
        None \<Rightarrow> Inl (Error ''useAuth must be used within an AuthProvider'')
      | Some context \<Rightarrow> Inr context)"

section \<open>The gateway (useApi.ts)\<close>






text \<open>
  The inner \<open>try\<close> block of lines 87-91. Every path through it throws: \<open>JSON.parse\<close>
  a SyntaxError, the property access a TypeError on \<open>null\<close>, and otherwise the explicit
  \<open>throw\<close>. The value is what it throws.
\<close>

definition parse_error_throws :: "Response \<Rightarrow> js_error" where
  "parse_error_throws response =
     (case json_body response of
        None \<Rightarrow> SyntaxError ''Unexpected token''
      | Some errorData \<Rightarrow>
          (case get_prop errorData ''message'' of
             Inl e \<Rightarrow> e
           | Inr m \<Rightarrow>
               (case js_or (js_or m (Some (JStr (statusText response))))
                           (Some (JStr ''API request failed'')) of
                  Some j \<Rightarrow> Error (js_to_string j)
                | None \<Rightarrow> Error ''undefined'')))"

text \<open>
  The \<open>catch (jsonError)\<close> block of lines 92-96 receives whatever the block above threw
  and throws its own error, built from the status text alone.
\<close>

definition api_error :: "Response \<Rightarrow> js_error" where
  "api_error response =
     (case parse_error_throws response of
        jsonError \<Rightarrow>
          Error (if statusText response \<noteq> [] then statusText response
                 else ''API request failed (Non-JSON error)''))"

text \<open>
  The second half of \<open>apiFetch\<close> (lines 64-108), run on the provider's state at the
  time the fetch settles. The outer \<open>catch\<close> rethrows what it catches. The flag is
  the one of \<open>logout\<close>.
\<close>

definition apiFetch_response ::
    "fetch_outcome \<Rightarrow> bool \<Rightarrow> auth_state \<Rightarrow> (js_error + json) \<times> auth_state" where
  "apiFetch_response out remove_ok s =
     (case out of
        Rejected error \<Rightarrow> (Inl error, s)
      | Responded response \<Rightarrow>
          if status response = 401 \<or> status response = 403 then
            (Inl (Error (''Authentication failed ('' @ string_of_nat (status response) @ '').'')),
             logout remove_ok s)
          else if \<not> ok response then (Inl (api_error response), s)
          else (case json_body response of
                  None \<Rightarrow> (Inl (SyntaxError ''Unexpected token''), s)
                | Some data \<Rightarrow> (Inr data, s)))"

section \<open>Executions\<close>

text \<open>
  What can happen to a mounted provider: a call of \<open>login\<close>, a call of \<open>logout\<close>,
  the completion of an identity request in flight, and the settling of a gateway call.
\<close>

datatype event =
    Login bool string
  | Logout bool
  | Resolved nat fetch_outcome bool
  | ApiSettled fetch_outcome bool

fun step :: "event \<Rightarrow> auth_state \<Rightarrow> auth_state" where
  "step (Login write_ok newToken) s = login write_ok newToken s"
| "step (Logout remove_ok) s = logout remove_ok s"
| "step (Resolved i out remove_ok) s = resolved i out remove_ok s"
| "step (ApiSettled out remove_ok) s = snd (apiFetch_response out remove_ok s)"

fun run :: "event list \<Rightarrow> auth_state \<Rightarrow> auth_state" where
  "run [] s = s"
| "run (e # es) s = run es (step e s)"



text \<open>
  Two properties of provider states. The first holds along every execution; the second
  is kept by executions that deliver no stale resolution.
\<close>

definition loading_inv :: "auth_state \<Rightarrow> bool" where
  "loading_inv s = (loadingUser s \<longrightarrow> truthy_token (token s))"


text \<open>A successful answer of the identity endpoint, for the concrete executions below.\<close>

definition profile :: "int \<Rightarrow> string \<Rightarrow> fetch_outcome" where
  "profile i n =
     Responded \<lparr>status = 200, statusText = ''OK'',
                json_body = Some (JObj [(''id'', JNum i), (''name'', JStr n)])\<rparr>"

section \<open>Basic facts\<close>

lemmas store_defs = login_def login_updates_def logout_def logout_updates_def resolved_def
  commit_def initializeAuth_def truthy_token_def

lemma fetchUser_profile:
  "n \<noteq> [] \<Longrightarrow>
   fetchUser (profile i n) = Some \<lparr>user_id = Some (JNum i), user_name = Some (JStr n)\<rparr>"
  by (simp add: fetchUser_def profile_def ok_def js_or_def)

lemma logout_clears: "token (logout b s) = None \<and> user (logout b s) = None"
  by (simp add: store_defs)

subsection \<open>Headers\<close>








subsection \<open>Invariants of the provider\<close>

lemma loading_inv_logout: "loading_inv s \<Longrightarrow> loading_inv (logout b s)"
  by (auto simp: loading_inv_def store_defs split: option.splits)

lemma loading_inv_login: "loading_inv s \<Longrightarrow> loading_inv (login b t s)"
  by (auto simp: loading_inv_def store_defs)

lemma loading_inv_resolved: "loading_inv s \<Longrightarrow> loading_inv (resolved i out b s)"
  by (auto simp: loading_inv_def store_defs Let_def split: option.splits)

lemma loading_inv_step: "loading_inv s \<Longrightarrow> loading_inv (step e s)"
  by (cases e) (auto simp: loading_inv_logout loading_inv_login loading_inv_resolved
      apiFetch_response_def split: fetch_outcome.splits option.splits)

lemma loading_inv_run: "loading_inv s \<Longrightarrow> loading_inv (run es s)"
  by (induction es arbitrary: s) (auto simp: loading_inv_step)

lemma loading_inv_mount: "loading_inv (mount stored)"
  by (auto simp: loading_inv_def mount_def initializeAuth_def truthy_token_def
      split: option.splits)

lemma logout_unauthenticated: "loading_inv s \<Longrightarrow> status_of (logout b s) = Unauthenticated"
  by (auto simp: loading_inv_def status_of_def store_defs)




section \<open>The gateway's reaction to a response\<close>

text \<open>
  Claim C1. When the response of a gateway call has status 401 or 403, the call invokes
  \<open>logout\<close> and rejects with the error "Authentication failed (status)."; the
  provider's state afterwards is that of \<open>logout\<close>: no token and no user, whatever
  the state was, and read as Unauthenticated after any execution of a mounted provider.
\<close>

theorem apiFetch_auth_invalid_logs_out:
  assumes "status response = 401 \<or> status response = 403"
  shows "fst (apiFetch_response (Responded response) remove_ok s) =
           Inl (Error (if status response = 401 then ''Authentication failed (401).''
                       else ''Authentication failed (403).''))
       \<and> snd (apiFetch_response (Responded response) remove_ok s) = logout remove_ok s
       \<and> token (logout remove_ok s) = None \<and> user (logout remove_ok s) = None
       \<and> status_of (snd (apiFetch_response (Responded response) remove_ok
                           (run es (mount stored)))) = Unauthenticated"
proof -
  have "string_of_nat 401 = ''401''" "string_of_nat 403 = ''403''"
    by (simp_all add: string_of_nat.simps)
  moreover have "loading_inv (run es (mount stored))"
    by (simp add: loading_inv_run loading_inv_mount)
  ultimately show ?thesis
    using assms by (auto simp: apiFetch_response_def logout_clears logout_unauthenticated)
qed

text \<open>
  The end-to-end scenario: mounted with nothing stored, \<open>login('tok-1')\<close>, the identity
  endpoint answers with id 7 and name Ada, and a gateway call is answered with 403.
\<close>

theorem apiFetch_auth_invalid_logs_out_witness:
  "(status \<lparr>status = 403, statusText = ''Forbidden'', json_body = None\<rparr> = 401
      \<or> status \<lparr>status = 403, statusText = ''Forbidden'', json_body = None\<rparr> = 403)
   \<and> user (run [Login True ''tok-1'', Resolved 0 (profile 7 ''Ada'') True] (mount None))
       = Some \<lparr>user_id = Some (JNum 7), user_name = Some (JStr ''Ada'')\<rparr>
   \<and> apiFetch_response
        (Responded \<lparr>status = 403, statusText = ''Forbidden'', json_body = None\<rparr>) True
        (run [Login True ''tok-1'', Resolved 0 (profile 7 ''Ada'') True] (mount None))
       = (Inl (Error ''Authentication failed (403).''),
          \<lparr>token = None, user = None, loadingUser = False, loginError = None,
           storage = None, pending = []\<rparr>)
   \<and> status_of (snd (apiFetch_response
        (Responded \<lparr>status = 403, statusText = ''Forbidden'', json_body = None\<rparr>) True
        (run [Login True ''tok-1'', Resolved 0 (profile 7 ''Ada'') True] (mount None))))
       = Unauthenticated"
proof -
  have r: "run [Login True ''tok-1'', Resolved 0 (profile 7 ''Ada'') True] (mount None)
      = \<lparr>token = Some ''tok-1'',
         user = Some \<lparr>user_id = Some (JNum 7), user_name = Some (JStr ''Ada'')\<rparr>,
         loadingUser = False, loginError = None, storage = Some ''tok-1'', pending = []\<rparr>"
    by (simp add: mount_def store_defs fetchUser_profile)
  have out: "logout True \<lparr>token = Some ''tok-1'',
         user = Some \<lparr>user_id = Some (JNum 7), user_name = Some (JStr ''Ada'')\<rparr>,
         loadingUser = False, loginError = None, storage = Some ''tok-1'', pending = []\<rparr>
      = \<lparr>token = None, user = None, loadingUser = False, loginError = None,
         storage = None, pending = []\<rparr>"
    by (simp add: store_defs)
  show ?thesis
    using apiFetch_auth_invalid_logs_out
      [where response = "\<lparr>status = 403, statusText = ''Forbidden'', json_body = None\<rparr>"
         and remove_ok = True
         and s = "run [Login True ''tok-1'', Resolved 0 (profile 7 ''Ada'') True] (mount None)"
         and es = "[Login True ''tok-1'', Resolved 0 (profile 7 ''Ada'') True]"
         and stored = None]
    unfolding r out by (simp add: prod_eq_iff status_of_def)
qed

text \<open>
  Claim C8. When the fetch of a gateway call rejects (the request never completed), the
  call rejects with that same error and the provider's state is unchanged: \<open>logout\<close>
  is not called.
\<close>

theorem apiFetch_network_failure:
  "apiFetch_response (Rejected e) remove_ok s = (Inl e, s)"
  by (simp add: apiFetch_response_def)

text \<open>
  Claim C5, at a response with status 500 whose body is the JSON object with the message
  "Company name is required": the inner \<open>try\<close> block throws an error carrying that
  message, its own \<open>catch\<close> block replaces it, and the call rejects with the status
  text.
\<close>

theorem apiFetch_drops_api_message:
  "parse_error_throws \<lparr>status = 500, statusText = ''Internal Server Error'',
       json_body = Some (JObj [(''message'', JStr ''Company name is required'')])\<rparr>
     = Error ''Company name is required''
   \<and> apiFetch_response (Responded \<lparr>status = 500, statusText = ''Internal Server Error'',
       json_body = Some (JObj [(''message'', JStr ''Company name is required'')])\<rparr>) remove_ok s
     = (Inl (Error ''Internal Server Error''), s)"
  by (simp add: apiFetch_response_def api_error_def parse_error_throws_def ok_def js_or_def)

text \<open>Whatever the body, the rejection of a non-ok response is built from the status text.\<close>

lemma api_error_ignores_body:
  "api_error response =
     Error (if statusText response \<noteq> [] then statusText response
            else ''API request failed (Non-JSON error)'')"
  by (simp add: api_error_def)

section \<open>Request headers\<close>






section \<open>The session provider under login, logout and resolution\<close>

text \<open>
  Claim C2, as stated, fails: after \<open>login('tok-A')\<close> and \<open>login('tok-B')\<close>, with
  the profile for tok-B arriving first and the profile for tok-A second, the provider
  holds tok-B together with the user resolved for tok-A.
\<close>

theorem login_race_keeps_stale_identity:
  "token (run [Login True ''tok-A'', Login True ''tok-B'', Resolved 1 (profile 2 ''Bob'') True,
               Resolved 0 (profile 1 ''Ann'') True] (mount None)) = Some ''tok-B''
   \<and> user (run [Login True ''tok-A'', Login True ''tok-B'', Resolved 1 (profile 2 ''Bob'') True,
               Resolved 0 (profile 1 ''Ann'') True] (mount None))
       = fetchUser (profile 1 ''Ann'')
   \<and> user (run [Login True ''tok-A'', Login True ''tok-B'', Resolved 1 (profile 2 ''Bob'') True,
               Resolved 0 (profile 1 ''Ann'') True] (mount None))
       \<noteq> fetchUser (profile 2 ''Bob'')
   \<and> pending (run [Login True ''tok-A'', Login True ''tok-B''] (mount None)) = [''tok-A'', ''tok-B'']"
  by (simp add: mount_def store_defs fetchUser_profile)

text \<open>
  Claim C2, amended. The provider keeps no record of which token a resolution was issued
  for and applies each result when it arrives. If the resolution for A is still in flight
  when \<open>login(B)\<close> is called and completes after the successful one for B, then: when
  it yields a profile, the user becomes A's profile while the token stays B; when it
  fails, the session for B is ended (no token, no user, the session-expired error).
\<close>

theorem stale_resolution_is_applied:
  assumes "A \<noteq> B" and "A \<noteq> []" and "B \<noteq> []" and "token s \<noteq> Some A"
    and "fetchUser outB = Some uB"
  shows "(fetchUser outA = Some uA \<longrightarrow>
            user (run [Login True A, Login True B, Resolved (Suc (length (pending s))) outB rb,
                       Resolved (length (pending s)) outA ra] s) = Some uA
          \<and> token (run [Login True A, Login True B, Resolved (Suc (length (pending s))) outB rb,
                       Resolved (length (pending s)) outA ra] s) = Some B)
       \<and> (fetchUser outA = None \<longrightarrow>
            user (run [Login True A, Login True B, Resolved (Suc (length (pending s))) outB rb,
                       Resolved (length (pending s)) outA ra] s) = None
          \<and> token (run [Login True A, Login True B, Resolved (Suc (length (pending s))) outB rb,
                       Resolved (length (pending s)) outA ra] s) = None
          \<and> loginError (run [Login True A, Login True B, Resolved (Suc (length (pending s))) outB rb,
                       Resolved (length (pending s)) outA ra] s)
              = Some ''Session expired. Please log in again.'')"
  using assms by (simp add: store_defs Let_def)

theorem stale_resolution_is_applied_witness:
  "''tok-A'' \<noteq> ''tok-B'' \<and> ''tok-A'' \<noteq> [] \<and> ''tok-B'' \<noteq> [] \<and> token (mount None) \<noteq> Some ''tok-A''
   \<and> fetchUser (profile 2 ''Bob'') = Some \<lparr>user_id = Some (JNum 2), user_name = Some (JStr ''Bob'')\<rparr>
   \<and> fetchUser (profile 1 ''Ann'') = Some \<lparr>user_id = Some (JNum 1), user_name = Some (JStr ''Ann'')\<rparr>
   \<and> user (run [Login True ''tok-A'', Login True ''tok-B'',
                 Resolved (Suc (length (pending (mount None)))) (profile 2 ''Bob'') True,
                 Resolved (length (pending (mount None))) (profile 1 ''Ann'') True] (mount None))
       = Some \<lparr>user_id = Some (JNum 1), user_name = Some (JStr ''Ann'')\<rparr>
   \<and> token (run [Login True ''tok-A'', Login True ''tok-B'',
                 Resolved (Suc (length (pending (mount None)))) (profile 2 ''Bob'') True,
                 Resolved (length (pending (mount None))) (profile 1 ''Ann'') True] (mount None))
       = Some ''tok-B''
   \<and> fetchUser (Rejected (TypeError ''Failed to fetch'')) = None
   \<and> token (run [Login True ''tok-A'', Login True ''tok-B'',
                 Resolved (Suc (length (pending (mount None)))) (profile 2 ''Bob'') True,
                 Resolved (length (pending (mount None))) (Rejected (TypeError ''Failed to fetch'')) True]
                (mount None)) = None
   \<and> loginError (run [Login True ''tok-A'', Login True ''tok-B'',
                 Resolved (Suc (length (pending (mount None)))) (profile 2 ''Bob'') True,
                 Resolved (length (pending (mount None))) (Rejected (TypeError ''Failed to fetch'')) True]
                (mount None)) = Some ''Session expired. Please log in again.''"
proof -
  have m: "token (mount None) \<noteq> Some ''tok-A''"
    by (simp add: mount_def initializeAuth_def)
  have b: "fetchUser (profile 2 ''Bob'') = Some \<lparr>user_id = Some (JNum 2), user_name = Some (JStr ''Bob'')\<rparr>"
    by (simp add: fetchUser_profile)
  have a: "fetchUser (profile 1 ''Ann'') = Some \<lparr>user_id = Some (JNum 1), user_name = Some (JStr ''Ann'')\<rparr>"
    by (simp add: fetchUser_profile)
  have f: "fetchUser (Rejected (TypeError ''Failed to fetch'')) = None"
    by (simp add: fetchUser_def)
  have ne: "''tok-A'' \<noteq> ''tok-B''" "''tok-A'' \<noteq> []" "''tok-B'' \<noteq> []"
    by simp_all
  show ?thesis
    using m a b f
      stale_resolution_is_applied [OF ne m b, where outA = "profile 1 ''Ann''"
        and uA = "\<lparr>user_id = Some (JNum 1), user_name = Some (JStr ''Ann'')\<rparr>"
        and rb = True and ra = True]
      stale_resolution_is_applied [OF ne m b, where outA = "Rejected (TypeError ''Failed to fetch'')"
        and uA = "\<lparr>user_id = Some (JNum 1), user_name = Some (JStr ''Ann'')\<rparr>"
        and rb = True and ra = True]
    by simp
qed




text \<open>
  Claim C6, as stated, fails: when the write to localStorage throws during
  \<open>login('tok-1')\<close> on a freshly mounted provider, no token is held afterwards and
  no resolution is started.
\<close>

theorem login_storage_failure_no_session:
  "token (login False ''tok-1'' (mount None)) = None
   \<and> user (login False ''tok-1'' (mount None)) = None
   \<and> pending (login False ''tok-1'' (mount None)) = []
   \<and> loginError (login False ''tok-1'' (mount None)) = Some ''Unable to store authentication data.''"
  by (simp add: mount_def store_defs)

text \<open>
  Claim C6, amended. When the write to localStorage fails during \<open>login\<close>, the failure
  is caught: the call returns, the token is not taken (token, user, storage and the
  requests in flight stay as they were) and loginError is set to "Unable to store
  authentication data.".
\<close>

theorem login_storage_failure:
  "login False newToken s = s\<lparr>loginError := Some ''Unable to store authentication data.''\<rparr>"
  by (simp add: store_defs)




section \<open>useAuth\<close>

text \<open>
  Claim C9. \<open>useAuth\<close> throws when the context value is null, which is the case
  whenever no provider is among the ancestors of the caller, and never returns null;
  under an \<open>AuthProvider\<close> it returns the value that provider supplies.
\<close>

theorem useAuth_outside_provider_throws:
  "(useContext ancestors = None \<longrightarrow>
      useAuth ancestors = Inl (Error ''useAuth must be used within an AuthProvider''))
   \<and> (useContext ancestors = Some ctx \<longrightarrow> useAuth ancestors = Inr ctx)
   \<and> ((\<forall>e \<in> set ancestors. e = Element) \<longrightarrow>
      useAuth ancestors = Inl (Error ''useAuth must be used within an AuthProvider''))
   \<and> ((\<forall>e \<in> set inner. e = Element) \<longrightarrow>
      useAuth (inner @ AuthProvider ctx # outer) = Inr ctx)"
proof -
  have a: "(\<forall>e \<in> set anc. e = Element) \<Longrightarrow> useContext anc = (None :: 'a option)"
    for anc :: "'a element list"
    by (induction anc) auto
  have b: "(\<forall>e \<in> set inn. e = Element) \<Longrightarrow> useContext (inn @ x # out) = useContext (x # out)"
    for inn out :: "'a element list" and x
    by (induction inn) auto
  show ?thesis
    by (auto simp: useAuth_def a b AuthProvider_def)
qed

theorem useAuth_outside_provider_throws_witness:
  "useContext [Element :: (string option \<times> User option \<times> bool \<times> string option) element, Element] = None
   \<and> useAuth [Element :: (string option \<times> User option \<times> bool \<times> string option) element, Element]
       = Inl (Error ''useAuth must be used within an AuthProvider'')
   \<and> useContext [Element, AuthProvider (contextValue (mount None)), Element]
       = Some (contextValue (mount None))
   \<and> useAuth ([Element] @ AuthProvider (contextValue (mount None)) # [Element])
       = Inr (contextValue (mount None))"
  using useAuth_outside_provider_throws
      [where ancestors = "[Element :: (string option \<times> User option \<times> bool \<times> string option) element, Element]"
         and inner = "[Element]" and outer = "[Element]" and ctx = "contextValue (mount None)"]
  by (simp add: AuthProvider_def)

end
